theory Spec2Isabelle
  imports Main "HOL-Library.AList"
begin

section \<open>The element tree read by \<open>parse_nmap_xml\<close>\<close>

text \<open>
  \<open>xml.etree.ElementTree\<close> hands the program a tree of elements. Each element has a tag,
  an attribute dictionary and a sequence of child elements. Text and tail are never read
  by the program and are left out.

  A Python string is represented by the sequence of bytes of its UTF-8 encoding. The
  encoding is one-to-one and turns concatenation into concatenation, so the comparisons,
  the emptiness tests and the concatenations of the program are the same on both sides.

  The attribute dictionary of a parsed element has pairwise distinct keys (the parser
  rejects a repeated attribute); the lookup below reads the first binding of a key.
\<close>


datatype elem = Element (tag: string) (attrib: "(string \<times> string) list") (children: "elem list")

text \<open>\<open>Element.get(key)\<close>: the attribute, or \<open>None\<close>.\<close>

definition get :: "elem \<Rightarrow> string \<Rightarrow> string option" where
  "get e key = map_of (attrib e) key"

text \<open>\<open>Element.get(key, dflt)\<close>: the attribute, or the given default.\<close>

definition get_or :: "elem \<Rightarrow> string \<Rightarrow> string \<Rightarrow> string" where
  "get_or e key dflt = (case get e key of None \<Rightarrow> dflt | Some v \<Rightarrow> v)"

text \<open>\<open>Element.findall(t)\<close> for a plain tag: the direct children with that tag, in order.\<close>

definition findall :: "elem \<Rightarrow> string \<Rightarrow> elem list" where
  "findall e t = filter (\<lambda>c. tag c = t) (children e)"

text \<open>\<open>Element.find(t)\<close> for a plain tag: the first direct child with that tag, or \<open>None\<close>.\<close>

definition find_elem :: "elem \<Rightarrow> string \<Rightarrow> elem option" where
  "find_elem e t = List.find (\<lambda>c. tag c = t) (children e)"

text \<open>\<open>Element.iter()\<close>: the element and all its descendants, in document order.\<close>

fun iter :: "elem \<Rightarrow> elem list" where
  "iter (Element t a cs) = Element t a cs # concat (map iter cs)"

text \<open>
  \<open>Element.findall(".//t")\<close>: every descendant with tag \<open>t\<close> in document order; the
  element itself is not among them.
\<close>

definition findall_desc :: "elem \<Rightarrow> string \<Rightarrow> elem list" where
  "findall_desc e t = filter (\<lambda>c. tag c = t) (concat (map iter (children e)))"

section \<open>Python values used by the program\<close>

text \<open>
  A Python \<open>dict\<close> keeps its keys in insertion order; \<open>d[k] = v\<close> replaces the value of
  an existing key in place and appends a new key at the end. This is \<open>AList.update\<close>.
\<close>

type_synonym ('k, 'v) dict = "('k \<times> 'v) list"

definition setitem :: "('k, 'v) dict \<Rightarrow> 'k \<Rightarrow> 'v \<Rightarrow> ('k, 'v) dict" where
  "setitem d k v = AList.update k v d"

text \<open>The truth value of an optional string: \<open>None\<close> and the empty string are false.\<close>

fun truthy :: "string option \<Rightarrow> bool" where
  "truthy None = False"
| "truthy (Some v) = (v \<noteq> [])"

text \<open>
  \<open>str.upper()\<close> (line 66) is a built-in of the language. On a string of ASCII
  characters it replaces the letters a to z by A to Z and keeps everything else. On
  other strings it follows the case mappings of the Unicode character database, where
  one character may become several; these mappings are not part of the program and are
  taken as the parameter \<open>str_upper\<close>, which the functions below pass along. Every
  theorem holds for whatever function \<open>str_upper\<close> is.
\<close>

definition ascii_upper_char :: "char \<Rightarrow> char" where
  "ascii_upper_char c =
     (case map_of (zip ''abcdefghijklmnopqrstuvwxyz'' ''ABCDEFGHIJKLMNOPQRSTUVWXYZ'') c of
        None \<Rightarrow> c
      | Some u \<Rightarrow> u)"

definition ascii_upper :: "string \<Rightarrow> string" where
  "ascii_upper s = map ascii_upper_char s"

text \<open>A string is ASCII when no byte of it has the highest bit set.\<close>

definition is_ascii :: "string \<Rightarrow> bool" where
  "is_ascii s = list_all (\<lambda>c. \<not> digit7 c) s"

definition upper :: "(string \<Rightarrow> string) \<Rightarrow> string \<Rightarrow> string" where
  "upper str_upper s = (if is_ascii s then ascii_upper s else str_upper s)"

text \<open>\<open>sep.join(xs)\<close>.\<close>

fun join :: "string \<Rightarrow> string list \<Rightarrow> string" where
  "join sep [] = []"
| "join sep [x] = x"
| "join sep (x # y # ys) = x @ sep @ join sep (y # ys)"

text \<open>
  The values stored in an output record: a string, or a dictionary from strings to
  strings (\<open>detailed_service_info\<close> and \<open>script_output\<close>).
\<close>

datatype pyval = Str string | Dict "(string, string) dict"

type_synonym flat_record = "(string, pyval) dict"

section \<open>The body of the port loop\<close>

text \<open>Lines 69-70: the state attribute of the first \<open>state\<close> child, \<open>""\<close> by default.\<close>

definition port_state_of :: "elem \<Rightarrow> string" where
  "port_state_of port =
     (case find_elem port ''state'' of
        None \<Rightarrow> ''''
      | Some state \<Rightarrow> get_or state ''state'' '''')"

text \<open>The five attribute names of line 85.\<close>

definition service_attrs :: "string list" where
  "service_attrs = [''product'', ''version'', ''extrainfo'', ''method'', ''conf'']"

text \<open>Lines 85-87: the loop over the attribute names.\<close>

fun attr_loop :: "elem \<Rightarrow> string list \<Rightarrow> (string, string) dict \<Rightarrow> (string, string) dict" where
  "attr_loop service [] service_details = service_details"
| "attr_loop service (attr # attrs) service_details =
     attr_loop service attrs
       (case get service attr of
          None \<Rightarrow> service_details
        | Some v \<Rightarrow> if v \<noteq> [] then setitem service_details attr v else service_details)"

text \<open>Lines 94-97: \<open>if x: combined.append(x)\<close>.\<close>

fun append_if :: "string list \<Rightarrow> string option \<Rightarrow> string list" where
  "append_if combined None = combined"
| "append_if combined (Some v) = (if v \<noteq> [] then combined @ [v] else combined)"

text \<open>Lines 90-98: the combined product/version entry.\<close>

definition add_combined :: "elem \<Rightarrow> (string, string) dict \<Rightarrow> (string, string) dict" where
  "add_combined service service_details =
     (let product = get service ''product'';
          version = get service ''version''
      in if truthy product \<or> truthy version
         then setitem service_details ''combined_info''
                (join '' '' (append_if (append_if [] product) version))
         else service_details)"

text \<open>Lines 77-98: the service name and the service details of a port.\<close>

definition service_info :: "elem \<Rightarrow> string \<times> (string, string) dict" where
  "service_info port =
     (case find_elem port ''service'' of
        None \<Rightarrow> ('''', [])
      | Some service \<Rightarrow>
          (get_or service ''name'' '''',
           add_combined service (attr_loop service service_attrs [])))"

text \<open>Lines 117-120: the loop over the script children.\<close>

fun script_loop :: "elem list \<Rightarrow> (string, string) dict \<Rightarrow> (string, string) dict" where
  "script_loop [] script_output = script_output"
| "script_loop (script # scripts) script_output =
     (let script_id = get_or script ''id'' ''''
      in script_loop scripts
           (if script_id \<noteq> []
            then setitem script_output script_id (get_or script ''output'' '''')
            else script_output))"

text \<open>Lines 114-123: the record with the script output added when there is any.\<close>

definition add_scripts :: "elem \<Rightarrow> flat_record \<Rightarrow> flat_record" where
  "add_scripts port record =
     (let scripts = findall port ''script''
      in if scripts \<noteq> []
         then (let script_output = script_loop scripts []
               in if script_output \<noteq> []
                  then setitem record ''script_output'' (Dict script_output)
                  else record)
         else record)"

text \<open>
  Lines 65-123: one pass of the port loop. \<open>None\<close> is the \<open>continue\<close> of line 74,
  \<open>Some record\<close> the record appended at line 125.
\<close>

definition port_body :: "(string \<Rightarrow> string) \<Rightarrow> string \<Rightarrow> string \<Rightarrow> string \<Rightarrow> elem \<Rightarrow> flat_record option" where
  "port_body str_upper port_status_filter hostname ip_address port =
     (let port_id = get_or port ''portid'' '''';
          protocol = upper str_upper (get_or port ''protocol'' '''');
          port_state = port_state_of port
      in if port_status_filter \<noteq> ''all'' \<and> port_state \<noteq> port_status_filter then None
         else
           (let (service_name, service_details) = service_info port;
                record = [(''fqdn'', Str hostname),
                          (''ip'', Str ip_address),
                          (''port'', Str (protocol @ ''/'' @ port_id)),
                          (''port_status'', Str port_state),
                          (''service'', Str service_name)];
                record = (if service_details \<noteq> []
                          then setitem record ''detailed_service_info'' (Dict service_details)
                          else record)
            in Some (add_scripts port record)))"

text \<open>Lines 64-125: the port loop, appending to \<open>results\<close>.\<close>

fun port_loop :: "(string \<Rightarrow> string) \<Rightarrow> string \<Rightarrow> string \<Rightarrow> string \<Rightarrow> elem list \<Rightarrow> flat_record list \<Rightarrow> flat_record list" where
  "port_loop str_upper port_status_filter hostname ip_address [] results = results"
| "port_loop str_upper port_status_filter hostname ip_address (port # ports) results =
     port_loop str_upper port_status_filter hostname ip_address ports
       (case port_body str_upper port_status_filter hostname ip_address port of
          None \<Rightarrow> results
        | Some record \<Rightarrow> results @ [record])"

section \<open>The body of the host loop\<close>

text \<open>
  Lines 42-46: the scan of the address children. It stops (\<open>break\<close>) at the first child
  whose \<open>addrtype\<close> is \<open>ipv4\<close> and yields its \<open>addr\<close> attribute, which may be absent.
\<close>

fun address_loop :: "elem list \<Rightarrow> string option" where
  "address_loop [] = None"
| "address_loop (address # addresses) =
     (if get address ''addrtype'' = Some ''ipv4'' then get address ''addr''
      else address_loop addresses)"

text \<open>Lines 52-57: the host name.\<close>

definition hostname_of :: "elem \<Rightarrow> string" where
  "hostname_of host =
     (case find_elem host ''hostnames'' of
        None \<Rightarrow> ''''
      | Some hostnames \<Rightarrow>
          (case find_elem hostnames ''hostname'' of
             None \<Rightarrow> ''''
           | Some hostname_elem \<Rightarrow> get_or hostname_elem ''name'' ''''))"

text \<open>
  Lines 41-125: one pass of the host loop. \<open>if not ip_address\<close> holds for \<open>None\<close> and
  for the empty string; the two \<open>continue\<close> statements (lines 49 and 62) leave
  \<open>results\<close> as it is.
\<close>

definition host_body :: "(string \<Rightarrow> string) \<Rightarrow> string \<Rightarrow> elem \<Rightarrow> flat_record list \<Rightarrow> flat_record list" where
  "host_body str_upper port_status_filter host results =
     (case address_loop (findall host ''address'') of
        None \<Rightarrow> results
      | Some ip_address \<Rightarrow>
          if ip_address = [] then results
          else
            (let hostname = hostname_of host
             in case find_elem host ''ports'' of
                  None \<Rightarrow> results
                | Some ports \<Rightarrow>
                    port_loop str_upper port_status_filter hostname ip_address
                      (findall ports ''port'') results))"

text \<open>Lines 40-125: the host loop.\<close>

fun host_loop :: "(string \<Rightarrow> string) \<Rightarrow> string \<Rightarrow> elem list \<Rightarrow> flat_record list \<Rightarrow> flat_record list" where
  "host_loop str_upper port_status_filter [] results = results"
| "host_loop str_upper port_status_filter (host # hosts) results =
     host_loop str_upper port_status_filter hosts (host_body str_upper port_status_filter host results)"

section \<open>The transform\<close>

text \<open>Lines 37-127: what \<open>parse_nmap_xml\<close> does with the root element of a parsed document.\<close>

definition transform :: "(string \<Rightarrow> string) \<Rightarrow> elem \<Rightarrow> string \<Rightarrow> flat_record list" where
  "transform str_upper root port_status_filter =
     host_loop str_upper port_status_filter (findall_desc root ''host'') []"

text \<open>
  Lines 30-35: the document is read and parsed by \<open>ET.parse\<close>, which is not part of the
  program; it is a parameter here, yielding the root element or \<open>None\<close> when it raises.
  The handler prints to the error stream and leaves with \<open>sys.exit(1)\<close>.
\<close>

datatype error = SystemExit nat

definition parse_nmap_xml ::
    "(string \<Rightarrow> string) \<Rightarrow> (string \<Rightarrow> elem option) \<Rightarrow> string \<Rightarrow> string \<Rightarrow> error + flat_record list" where
  "parse_nmap_xml str_upper ET_parse xml_file port_status_filter =
     (case ET_parse xml_file of
        None \<Rightarrow> Inl (SystemExit 1)
      | Some root \<Rightarrow> Inr (transform str_upper root port_status_filter))"

section \<open>Records and the ports they come from\<close>

text \<open>
  \<open>emitted str_upper root f host port record\<close>: \<open>host\<close> is one of the host elements of the document,
  it passes lines 42-62 with a usable address and a \<open>ports\<close> child, \<open>port\<close> is one of the
  port children visited by the port loop, and the pass for \<open>port\<close> appends \<open>record\<close>.
\<close>

definition emitted :: "(string \<Rightarrow> string) \<Rightarrow> elem \<Rightarrow> string \<Rightarrow> elem \<Rightarrow> elem \<Rightarrow> flat_record \<Rightarrow> bool" where
  "emitted str_upper root port_status_filter host port record =
     (host \<in> set (findall_desc root ''host'') \<and>
      (case address_loop (findall host ''address'') of
         None \<Rightarrow> False
       | Some ip_address \<Rightarrow>
           ip_address \<noteq> [] \<and>
           (case find_elem host ''ports'' of
              None \<Rightarrow> False
            | Some ports \<Rightarrow>
                port \<in> set (findall ports ''port'') \<and>
                port_body str_upper port_status_filter (hostname_of host) ip_address port = Some record)))"

section \<open>Example documents\<close>

text \<open>
  A host with address 10.0.0.5 and name web1, an open port 80/tcp running nginx 1.18
  and a closed port 22/tcp. The example documents hold ASCII strings only, so that their
  records are the same for every \<open>str_upper\<close>; they are computed with \<open>ascii_upper\<close>.
\<close>

definition port80 :: elem where
  "port80 = Element ''port'' [(''protocol'', ''tcp''), (''portid'', ''80'')]
     [Element ''state'' [(''state'', ''open'')] [],
      Element ''service''
        [(''name'', ''http''), (''product'', ''nginx''), (''version'', ''1.18'')] []]"

definition port22 :: elem where
  "port22 = Element ''port'' [(''protocol'', ''tcp''), (''portid'', ''22'')]
     [Element ''state'' [(''state'', ''closed'')] []]"

definition host_web1 :: elem where
  "host_web1 = Element ''host'' []
     [Element ''address'' [(''addr'', ''10.0.0.5''), (''addrtype'', ''ipv4'')] [],
      Element ''hostnames'' [] [Element ''hostname'' [(''name'', ''web1'')] []],
      Element ''ports'' [] [port80, port22]]"

definition doc_web1 :: elem where
  "doc_web1 = Element ''nmaprun'' [] [host_web1]"

definition record80 :: flat_record where
  "record80 =
     [(''fqdn'', Str ''web1''), (''ip'', Str ''10.0.0.5''), (''port'', Str ''TCP/80''),
      (''port_status'', Str ''open''), (''service'', Str ''http''),
      (''detailed_service_info'',
       Dict [(''product'', ''nginx''), (''version'', ''1.18''),
             (''combined_info'', ''nginx 1.18'')])]"

definition record22 :: flat_record where
  "record22 =
     [(''fqdn'', Str ''web1''), (''ip'', Str ''10.0.0.5''), (''port'', Str ''TCP/22''),
      (''port_status'', Str ''closed''), (''service'', Str '''')]"

section \<open>Example hosts without a usable address\<close>

text \<open>A host that has only an IPv6 address, and ports.\<close>

definition host_v6 :: elem where
  "host_v6 = Element ''host'' []
     [Element ''address'' [(''addr'', ''fe80::1''), (''addrtype'', ''ipv6'')] [],
      Element ''ports'' [] [port80, port22]]"

text \<open>
  A host whose first \<open>ipv4\<close> address has no \<open>addr\<close> attribute and whose second one has.
\<close>

definition addr_blank :: elem where
  "addr_blank = Element ''address'' [(''addrtype'', ''ipv4'')] []"

definition addr_late :: elem where
  "addr_late = Element ''address'' [(''addr'', ''10.0.0.9''), (''addrtype'', ''ipv4'')] []"

definition host_two_v4 :: elem where
  "host_two_v4 = Element ''host'' []
     [addr_blank, addr_late, Element ''ports'' [] [port80, port22]]"

section \<open>Reading the service details of a record\<close>

text \<open>The entry that one pass of the attribute loop (lines 86-87) adds for \<open>attr\<close>.\<close>

definition details_entry :: "elem \<Rightarrow> string \<Rightarrow> (string, string) dict" where
  "details_entry service attr =
     (case get service attr of
        None \<Rightarrow> []
      | Some v \<Rightarrow> if v \<noteq> [] then [(attr, v)] else [])"

text \<open>The \<open>combined_info\<close> entry of a record, when it has one.\<close>

definition combined_info_of :: "flat_record \<Rightarrow> string option" where
  "combined_info_of record =
     (case map_of record ''detailed_service_info'' of
        Some (Dict service_details) \<Rightarrow> map_of service_details ''combined_info''
      | _ \<Rightarrow> None)"

section \<open>Scripts\<close>

text \<open>The last script child whose \<open>id\<close> attribute is \<open>k\<close>, if there is one.\<close>

definition last_script_with_id :: "elem list \<Rightarrow> string \<Rightarrow> elem option" where
  "last_script_with_id scripts k = List.find (\<lambda>s. get_or s ''id'' [] = k) (rev scripts)"

text \<open>A host with one port on which two script children carry the same id.\<close>

definition script_a :: elem where
  "script_a = Element ''script'' [(''id'', ''x''), (''output'', ''a'')] []"

definition script_b :: elem where
  "script_b = Element ''script'' [(''id'', ''x''), (''output'', ''b'')] []"

definition port_dup :: elem where
  "port_dup = Element ''port'' [(''protocol'', ''tcp''), (''portid'', ''443'')]
     [Element ''state'' [(''state'', ''open'')] [], script_a, script_b]"

definition host_dup :: elem where
  "host_dup = Element ''host'' []
     [Element ''address'' [(''addr'', ''10.0.0.7''), (''addrtype'', ''ipv4'')] [],
      Element ''ports'' [] [port_dup]]"

definition doc_dup :: elem where
  "doc_dup = Element ''nmaprun'' [] [host_dup]"

definition record_dup :: flat_record where
  "record_dup =
     [(''fqdn'', Str []), (''ip'', Str ''10.0.0.7''), (''port'', Str ''TCP/443''),
      (''port_status'', Str ''open''), (''service'', Str []),
      (''script_output'', Dict [(''x'', ''b'')])]"

section \<open>The output in the words of the specification\<close>

text \<open>
  The records of one host, as the specification describes them: none when the host has
  no usable address or no \<open>ports\<close> child, otherwise the records of its port children in
  document order, a port that is filtered out giving none.
\<close>

definition spec_host_records :: "(string \<Rightarrow> string) \<Rightarrow> string \<Rightarrow> elem \<Rightarrow> flat_record list" where
  "spec_host_records str_upper port_status_filter host =
     (case address_loop (findall host ''address'') of
        None \<Rightarrow> []
      | Some ip_address \<Rightarrow>
          if ip_address = [] then []
          else
            (case find_elem host ''ports'' of
               None \<Rightarrow> []
             | Some ports \<Rightarrow>
                 concat (map (\<lambda>port.
                     case port_body str_upper port_status_filter (hostname_of host) ip_address port of
                       None \<Rightarrow> []
                     | Some record \<Rightarrow> [record])
                   (findall ports ''port''))))"

text \<open>The output: the records of the host elements in document order, one after another.\<close>

definition spec_transform :: "(string \<Rightarrow> string) \<Rightarrow> elem \<Rightarrow> string \<Rightarrow> flat_record list" where
  "spec_transform str_upper root port_status_filter =
     concat (map (spec_host_records str_upper port_status_filter) (findall_desc root ''host''))"

section \<open>More example documents\<close>

text \<open>A port element without attributes and children.\<close>

definition port_bare :: elem where
  "port_bare = Element ''port'' [] []"

text \<open>A host with a usable address and no \<open>ports\<close> child.\<close>

definition host_no_ports :: elem where
  "host_no_ports = Element ''host'' []
     [Element ''address'' [(''addr'', ''10.0.0.6''), (''addrtype'', ''ipv4'')] []]"

text \<open>A host with a usable address, no host name and one bare port.\<close>

definition host_bare :: elem where
  "host_bare = Element ''host'' []
     [Element ''address'' [(''addr'', ''10.0.0.8''), (''addrtype'', ''ipv4'')] [],
      Element ''ports'' [] [port_bare]]"

definition record_bare :: flat_record where
  "record_bare =
     [(''fqdn'', Str []), (''ip'', Str ''10.0.0.8''), (''port'', Str ''/''),
      (''port_status'', Str []), (''service'', Str [])]"

text \<open>A document in which the host web1 occurs twice.\<close>

definition doc_twice :: elem where
  "doc_twice = Element ''nmaprun'' [] [host_web1, host_web1]"

section \<open>Evaluation\<close>

lemmas model_defs = ascii_upper_char_def ascii_upper_def is_ascii_def upper_def get_def get_or_def findall_def find_elem_def findall_desc_def setitem_def
  port_state_of_def service_attrs_def add_combined_def
  service_info_def add_scripts_def port_body_def hostname_of_def host_body_def transform_def
  parse_nmap_xml_def emitted_def Let_def

lemmas example_defs = port80_def port22_def host_web1_def doc_web1_def record80_def
  record22_def

section \<open>The loops as list functions\<close>

lemma port_loop_append:
  "port_loop u f hn ip ports results = results @ List.map_filter (port_body u f hn ip) ports"
  by (induction ports arbitrary: results)
     (auto simp: List.map_filter_simps split: option.splits)

lemma host_body_append:
  "host_body u f host results = results @ host_body u f host []"
  by (simp add: host_body_def Let_def port_loop_append[of _ _ _ _ _ results]
        port_loop_append[of _ _ _ _ _ "[]"] split: option.splits)

lemma host_loop_append:
  "host_loop u f hosts results = results @ concat (map (\<lambda>h. host_body u f h []) hosts)"
proof (induction hosts arbitrary: results)
  case Nil
  show ?case by simp
next
  case (Cons h hs)
  have "host_loop u f (h # hs) results =
        host_body u f h results @ concat (map (\<lambda>h. host_body u f h []) hs)"
    by (simp add: Cons.IH)
  also have "\<dots> = results @ host_body u f h [] @ concat (map (\<lambda>h. host_body u f h []) hs)"
    using host_body_append[of u f h results] by simp
  finally show ?case by simp
qed

lemma set_map_filter: "set (List.map_filter g xs) = {y. \<exists>x\<in>set xs. g x = Some y}"
  by (induction xs) (auto simp: List.map_filter_simps split: option.splits)

lemma host_body_records:
  "set (host_body u f host []) =
     {r. \<exists>ip ports port. address_loop (findall host ''address'') = Some ip \<and> ip \<noteq> [] \<and>
           find_elem host ''ports'' = Some ports \<and> port \<in> set (findall ports ''port'') \<and>
           port_body u f (hostname_of host) ip port = Some r}"
proof (cases "address_loop (findall host ''address'')")
  case None
  then show ?thesis by (simp add: host_body_def)
next
  case (Some ip)
  note ip = this
  show ?thesis
  proof (cases "find_elem host ''ports''")
    case None
    with ip show ?thesis by (simp add: host_body_def)
  next
    case (Some ports)
    with ip show ?thesis
      by (auto simp: host_body_def port_loop_append set_map_filter)
  qed
qed

lemma emitted_iff:
  "emitted u root f host port r \<longleftrightarrow>
     host \<in> set (findall_desc root ''host'') \<and>
     (\<exists>ip ports. address_loop (findall host ''address'') = Some ip \<and> ip \<noteq> [] \<and>
        find_elem host ''ports'' = Some ports \<and> port \<in> set (findall ports ''port'') \<and>
        port_body u f (hostname_of host) ip port = Some r)"
  by (cases "address_loop (findall host ''address'')"; cases "find_elem host ''ports''")
     (simp_all add: emitted_def)

lemma transform_emitted:
  "r \<in> set (transform u root f) \<longleftrightarrow> (\<exists>host port. emitted u root f host port r)"
proof -
  have "r \<in> set (transform u root f) \<longleftrightarrow>
        (\<exists>host\<in>set (findall_desc root ''host''). r \<in> set (host_body u f host []))"
    by (auto simp: transform_def host_loop_append)
  also have "\<dots> \<longleftrightarrow> (\<exists>host port. emitted u root f host port r)"
    unfolding host_body_records emitted_iff by blast
  finally show ?thesis .
qed

lemma emitted_port_body:
  "emitted u root f host port r \<Longrightarrow>
   \<exists>ip. ip \<noteq> [] \<and> port_body u f (hostname_of host) ip port = Some r"
  unfolding emitted_iff by blast

section \<open>The fields of a record\<close>

lemma map_of_setitem: "map_of (setitem d k v) = (map_of d)(k \<mapsto> v)"
  by (simp add: setitem_def update_conv')

lemma map_of_add_scripts:
  "k \<noteq> ''script_output'' \<Longrightarrow> map_of (add_scripts port record) k = map_of record k"
  by (simp add: add_scripts_def Let_def map_of_setitem)

lemma port_body_fields:
  assumes "port_body u f hn ip port = Some r"
  shows "map_of r ''fqdn'' = Some (Str hn)"
    and "map_of r ''ip'' = Some (Str ip)"
    and "map_of r ''port'' =
           Some (Str (upper u (get_or port ''protocol'' '''') @ ''/'' @ get_or port ''portid'' ''''))"
    and "map_of r ''port_status'' = Some (Str (port_state_of port))"
    and "map_of r ''service'' = Some (Str (fst (service_info port)))"
  using assms
  by (auto simp: port_body_def Let_def map_of_add_scripts map_of_setitem
           split: if_splits prod.splits)

lemma port_body_filter:
  "port_body u f hn ip port = Some r \<Longrightarrow> f \<noteq> ''all'' \<Longrightarrow> port_state_of port = f"
  by (auto simp: port_body_def Let_def split: if_splits)

lemma port_body_skip:
  "f \<noteq> ''all'' \<Longrightarrow> port_state_of port \<noteq> f \<Longrightarrow> port_body u f hn ip port = None"
  by (auto simp: port_body_def Let_def split: if_splits)

section \<open>The status filter\<close>

text \<open>
  Claim C1. When the status filter is not \<open>all\<close>, every record of the output has
  \<open>port_status\<close> equal to the filter, and a port whose state (the empty string when the
  state is missing) differs from the filter contributes nothing: the port loop gives the
  same results with and without that port.
\<close>

theorem status_filter:
  assumes "port_status_filter \<noteq> ''all''"
  shows "(\<forall>r\<in>set (transform str_upper root port_status_filter).
            map_of r ''port_status'' = Some (Str port_status_filter)) \<and>
         (port_state_of port \<noteq> port_status_filter \<longrightarrow>
            port_loop str_upper port_status_filter hostname ip_address (before @ port # after) results =
            port_loop str_upper port_status_filter hostname ip_address (before @ after) results)"
proof (intro conjI ballI impI)
  fix r assume "r \<in> set (transform str_upper root port_status_filter)"
  then obtain host p where "emitted str_upper root port_status_filter host p r"
    using transform_emitted by blast
  then obtain hn ip where pb: "port_body str_upper port_status_filter hn ip p = Some r"
    using emitted_port_body by blast
  from port_body_filter[OF pb assms] port_body_fields(4)[OF pb]
  show "map_of r ''port_status'' = Some (Str port_status_filter)" by simp
next
  assume "port_state_of port \<noteq> port_status_filter"
  then have "port_body str_upper port_status_filter hostname ip_address port = None"
    using assms by (rule port_body_skip[rotated])
  then show "port_loop str_upper port_status_filter hostname ip_address (before @ port # after) results =
             port_loop str_upper port_status_filter hostname ip_address (before @ after) results"
    by (simp add: port_loop_append List.map_filter_def)
qed

theorem status_filter_witness:
  "''closed'' \<noteq> ''all'' \<and>
   record22 \<in> set (transform ascii_upper doc_web1 ''closed'') \<and>
   map_of record22 ''port_status'' = Some (Str ''closed'') \<and>
   port_state_of port80 \<noteq> ''closed'' \<and>
   port_loop ascii_upper ''closed'' ''web1'' ''10.0.0.5'' ([] @ port80 # [port22]) [] =
   port_loop ascii_upper ''closed'' ''web1'' ''10.0.0.5'' ([] @ [port22]) []"
proof -
  have h: "''closed'' \<noteq> ''all''" by simp
  have m: "record22 \<in> set (transform ascii_upper doc_web1 ''closed'')"
    by (simp add: model_defs example_defs)
  have s: "port_state_of port80 \<noteq> ''closed''"
    by (simp add: model_defs example_defs)
  from status_filter[OF h, of ascii_upper doc_web1 port80 "''web1''" "''10.0.0.5''" "[]" "[port22]" "[]"]
    h m s
  show ?thesis by blast
qed

section \<open>The address scan\<close>

lemmas example2_defs = host_v6_def addr_blank_def addr_late_def host_two_v4_def

lemma address_loop_find:
  "address_loop addresses =
     (case List.find (\<lambda>a. get a ''addrtype'' = Some ''ipv4'') addresses of
        None \<Rightarrow> None
      | Some a \<Rightarrow> get a ''addr'')"
  by (induction addresses) simp_all

lemma address_loop_unusable:
  assumes "\<forall>a\<in>set addresses. get a ''addrtype'' = Some ''ipv4'' \<longrightarrow> \<not> truthy (get a ''addr'')"
  shows "\<not> truthy (address_loop addresses)"
  using assms by (induction addresses) auto

lemma host_body_unusable:
  "\<not> truthy (address_loop (findall host ''address'')) \<Longrightarrow> host_body u f host results = results"
  by (cases "address_loop (findall host ''address'')") (simp_all add: host_body_def)

text \<open>
  Claim C2. A host in which no address child tagged \<open>ipv4\<close> carries a non-empty
  \<open>addr\<close> leaves the results as they are, whatever its ports; and every record of
  the output, for every document and filter, has a non-empty string under \<open>ip\<close>.
\<close>

theorem no_ipv4_no_records:
  "((\<forall>a\<in>set (findall host ''address'').
        get a ''addrtype'' = Some ''ipv4'' \<longrightarrow> \<not> truthy (get a ''addr'')) \<longrightarrow>
      host_body str_upper port_status_filter host results = results) \<and>
   (\<forall>r\<in>set (transform str_upper root port_status_filter).
      \<exists>ip. map_of r ''ip'' = Some (Str ip) \<and> ip \<noteq> [])"
proof (intro conjI impI ballI)
  assume "\<forall>a\<in>set (findall host ''address'').
            get a ''addrtype'' = Some ''ipv4'' \<longrightarrow> \<not> truthy (get a ''addr'')"
  then show "host_body str_upper port_status_filter host results = results"
    by (intro host_body_unusable address_loop_unusable)
next
  fix r assume "r \<in> set (transform str_upper root port_status_filter)"
  then obtain host port where "emitted str_upper root port_status_filter host port r"
    using transform_emitted by blast
  then obtain ip where "ip \<noteq> []"
    and "port_body str_upper port_status_filter (hostname_of host) ip port = Some r"
    using emitted_port_body by blast
  then show "\<exists>ip. map_of r ''ip'' = Some (Str ip) \<and> ip \<noteq> []"
    using port_body_fields(2) by blast
qed

theorem no_ipv4_no_records_witness:
  "list_all (\<lambda>a. get a ''addrtype'' \<noteq> Some ''ipv4'' \<or> \<not> truthy (get a ''addr''))
     (findall host_v6 ''address'') \<and>
   findall host_v6 ''address'' \<noteq> [] \<and>
   host_body ascii_upper ''all'' host_v6 [record22] = [record22] \<and>
   record80 \<in> set (transform ascii_upper doc_web1 ''all'') \<and>
   map_of record80 ''ip'' = Some (Str ''10.0.0.5'') \<and> ''10.0.0.5'' \<noteq> []"
proof -
  have h: "\<forall>a\<in>set (findall host_v6 ''address'').
             get a ''addrtype'' = Some ''ipv4'' \<longrightarrow> \<not> truthy (get a ''addr'')"
    by (simp add: model_defs example2_defs)
  have l: "list_all (\<lambda>a. get a ''addrtype'' \<noteq> Some ''ipv4'' \<or> \<not> truthy (get a ''addr''))
     (findall host_v6 ''address'') \<and> findall host_v6 ''address'' \<noteq> []"
    by (simp add: model_defs example2_defs)
  have m: "record80 \<in> set (transform ascii_upper doc_web1 ''all'')"
    by (simp add: model_defs example_defs)
  have i: "map_of record80 ''ip'' = Some (Str ''10.0.0.5'')"
    by (simp add: record80_def)
  from no_ipv4_no_records[of host_v6 ascii_upper "''all''" "[record22]" doc_web1] h l m i
  show ?thesis by blast
qed

text \<open>
  Claim C10. The address scan yields the \<open>addr\<close> attribute of the first address child
  tagged \<open>ipv4\<close>; when that attribute is absent or empty the host leaves the results as
  they are, also when a later \<open>ipv4\<close> address carries a non-empty \<open>addr\<close>.
\<close>

theorem first_ipv4_decides:
  assumes "List.find (\<lambda>a. get a ''addrtype'' = Some ''ipv4'') (findall host ''address'') = Some a"
  shows "address_loop (findall host ''address'') = get a ''addr'' \<and>
         (\<not> truthy (get a ''addr'') \<longrightarrow> host_body str_upper port_status_filter host results = results)"
proof -
  from assms have "address_loop (findall host ''address'') = get a ''addr''"
    by (simp add: address_loop_find)
  then show ?thesis by (simp add: host_body_unusable)
qed

theorem first_ipv4_decides_witness:
  "List.find (\<lambda>a. get a ''addrtype'' = Some ''ipv4'') (findall host_two_v4 ''address'') =
     Some addr_blank \<and>
   \<not> truthy (get addr_blank ''addr'') \<and>
   findall host_two_v4 ''address'' = [addr_blank, addr_late] \<and>
   get addr_late ''addrtype'' = Some ''ipv4'' \<and> get addr_late ''addr'' = Some ''10.0.0.9'' \<and>
   find_elem host_two_v4 ''ports'' = Some (Element ''ports'' [] [port80, port22]) \<and>
   address_loop (findall host_two_v4 ''address'') = get addr_blank ''addr'' \<and>
   host_body ascii_upper ''all'' host_two_v4 [] = []"
proof -
  have h: "List.find (\<lambda>a. get a ''addrtype'' = Some ''ipv4'') (findall host_two_v4 ''address'') =
     Some addr_blank"
    by (simp add: model_defs example2_defs)
  have e: "\<not> truthy (get addr_blank ''addr'') \<and>
   findall host_two_v4 ''address'' = [addr_blank, addr_late] \<and>
   get addr_late ''addrtype'' = Some ''ipv4'' \<and> get addr_late ''addr'' = Some ''10.0.0.9'' \<and>
   find_elem host_two_v4 ''ports'' = Some (Element ''ports'' [] [port80, port22])"
    by (simp add: model_defs example2_defs)
  from first_ipv4_decides[OF h, of ascii_upper "''all''" "[]"] h e
  show ?thesis by blast
qed

section \<open>The service details\<close>

lemma setitem_fresh: "k \<notin> fst ` set d \<Longrightarrow> setitem d k v = d @ [(k, v)]"
  unfolding setitem_def by (induction d) auto

lemma details_entry_keys: "fst ` set (details_entry service attr) \<subseteq> {attr}"
  by (auto simp: details_entry_def split: option.splits if_splits)

lemma attr_loop_append:
  "distinct attrs \<Longrightarrow> set attrs \<inter> fst ` set d = {} \<Longrightarrow>
   attr_loop service attrs d = d @ concat (map (details_entry service) attrs)"
proof (induction attrs arbitrary: d)
  case Nil
  show ?case by simp
next
  case (Cons a attrs)
  let ?d = "d @ details_entry service a"
  have step: "(case get service a of None \<Rightarrow> d
               | Some v \<Rightarrow> if v \<noteq> [] then setitem d a v else d) = ?d"
    using Cons.prems(2) by (auto simp: details_entry_def setitem_fresh split: option.splits)
  have "set attrs \<inter> fst ` set ?d = {}"
    using Cons.prems details_entry_keys[of service a] by auto
  with Cons.IH[of ?d] Cons.prems(1) have "attr_loop service attrs ?d =
      ?d @ concat (map (details_entry service) attrs)"
    by simp
  with step show ?case by simp
qed

lemma attr_loop_service_attrs:
  "attr_loop service service_attrs [] = concat (map (details_entry service) service_attrs)"
  by (rule attr_loop_append[of service_attrs "[]" service, simplified])
     (simp add: service_attrs_def)

lemma details_keys:
  "map fst (concat (map (details_entry service) attrs)) =
     filter (\<lambda>a. truthy (get service a)) attrs"
  by (induction attrs) (auto simp: details_entry_def split: option.splits)

lemma details_lookup:
  "map_of (concat (map (details_entry service) attrs)) a =
     (if a \<in> set attrs \<and> truthy (get service a) then get service a else None)"
  by (induction attrs) (auto simp: details_entry_def split: option.splits)

lemma combined_fresh:
  "''combined_info'' \<notin> fst ` set (concat (map (details_entry service) service_attrs))"
proof -
  have "fst ` set (concat (map (details_entry service) service_attrs)) \<subseteq> set service_attrs"
    using details_keys[of service service_attrs]
    by (metis filter_is_subset set_map)
  moreover have "''combined_info'' \<notin> set service_attrs"
    by (simp add: service_attrs_def)
  ultimately show ?thesis by blast
qed

lemma service_details_eq:
  assumes "find_elem port ''service'' = Some service"
  shows "snd (service_info port) =
           concat (map (details_entry service) service_attrs) @
           (if truthy (get service ''product'') \<or> truthy (get service ''version'')
            then [(''combined_info'',
                   join '' '' (append_if (append_if [] (get service ''product''))
                                 (get service ''version'')))]
            else [])"
  using assms
  by (simp add: service_info_def add_combined_def Let_def attr_loop_service_attrs
        setitem_fresh[OF combined_fresh])

lemma port_body_details:
  assumes "port_body u f hn ip port = Some r"
  shows "map_of r ''detailed_service_info'' =
           (if snd (service_info port) \<noteq> [] then Some (Dict (snd (service_info port))) else None)"
  using assms
  by (auto simp: port_body_def Let_def map_of_add_scripts map_of_setitem
           split: if_splits prod.splits)

text \<open>
  Claim C3. For every record emitted for a port, the key \<open>detailed_service_info\<close> is
  present exactly when the port has a service element on which at least one of the five
  attributes is present and non-empty. When present, its value is a dictionary whose keys
  are the non-empty ones among the five attributes, followed by \<open>combined_info\<close> when
  product or version is non-empty, and each of the five keys maps to its attribute.
\<close>

theorem detailed_service_info_present:
  assumes "emitted str_upper root port_status_filter host port r"
  shows "(map_of r ''detailed_service_info'' \<noteq> None \<longleftrightarrow>
            (\<exists>service. find_elem port ''service'' = Some service \<and>
               (\<exists>a\<in>set service_attrs. truthy (get service a)))) \<and>
         (\<forall>v. map_of r ''detailed_service_info'' = Some v \<longrightarrow>
            (\<exists>service details.
               find_elem port ''service'' = Some service \<and> v = Dict details \<and>
               map fst details =
                 filter (\<lambda>a. truthy (get service a)) service_attrs @
                 (if truthy (get service ''product'') \<or> truthy (get service ''version'')
                  then [''combined_info''] else []) \<and>
               (\<forall>a\<in>set service_attrs.
                  truthy (get service a) \<longrightarrow> map_of details a = get service a)))"
proof -
  from assms obtain ip where pb: "port_body str_upper port_status_filter (hostname_of host) ip port = Some r"
    using emitted_port_body by blast
  note dsi = port_body_details[OF pb]
  show ?thesis
  proof (cases "find_elem port ''service''")
    case None
    then have "snd (service_info port) = []" by (simp add: service_info_def)
    with dsi None show ?thesis by simp
  next
    case (Some service)
    let ?pv = "truthy (get service ''product'') \<or> truthy (get service ''version'')"
    let ?details = "snd (service_info port)"
    note sd = service_details_eq[OF Some]
    have keys: "map fst ?details =
        filter (\<lambda>a. truthy (get service a)) service_attrs @
        (if ?pv then [''combined_info''] else [])"
      unfolding sd by (simp add: details_keys)
    have pv: "?pv \<Longrightarrow> \<exists>a\<in>set service_attrs. truthy (get service a)"
      by (auto simp: service_attrs_def)
    have nonempty: "?details \<noteq> [] \<longleftrightarrow> (\<exists>a\<in>set service_attrs. truthy (get service a))"
    proof -
      have "?details \<noteq> [] \<longleftrightarrow> map fst ?details \<noteq> []" by simp
      also have "\<dots> \<longleftrightarrow> (\<exists>a\<in>set service_attrs. truthy (get service a))"
        unfolding keys using pv by (auto simp: filter_empty_conv)
      finally show ?thesis .
    qed
    have vals: "map_of ?details a = get service a"
      if "a \<in> set service_attrs" "truthy (get service a)" for a
      unfolding sd using that
      by (cases "get service a") (simp_all add: map_add_def details_lookup)
    from dsi Some keys nonempty vals show ?thesis by auto
  qed
qed

theorem detailed_service_info_present_witness:
  "emitted ascii_upper doc_web1 ''all'' host_web1 port80 record80 \<and>
   map_of record80 ''detailed_service_info'' =
     Some (Dict [(''product'', ''nginx''), (''version'', ''1.18''),
                 (''combined_info'', ''nginx 1.18'')]) \<and>
   find_elem port80 ''service'' =
     Some (Element ''service''
             [(''name'', ''http''), (''product'', ''nginx''), (''version'', ''1.18'')] []) \<and>
   emitted ascii_upper doc_web1 ''all'' host_web1 port22 record22 \<and>
   map_of record22 ''detailed_service_info'' = None \<and>
   find_elem port22 ''service'' = None"
proof -
  have e80: "emitted ascii_upper doc_web1 ''all'' host_web1 port80 record80"
    by (simp add: model_defs example_defs)
  have e22: "emitted ascii_upper doc_web1 ''all'' host_web1 port22 record22"
    by (simp add: model_defs example_defs)
  have s80: "find_elem port80 ''service'' =
     Some (Element ''service''
             [(''name'', ''http''), (''product'', ''nginx''), (''version'', ''1.18'')] [])"
    by (simp add: model_defs example_defs)
  have m80: "map_of record80 ''detailed_service_info'' =
     Some (Dict [(''product'', ''nginx''), (''version'', ''1.18''),
                 (''combined_info'', ''nginx 1.18'')])"
    by (simp add: record80_def)
  have m22: "map_of record22 ''detailed_service_info'' = None"
    by (simp add: record22_def)
  have s22: "find_elem port22 ''service'' = None"
    by (simp add: model_defs example_defs)
  from detailed_service_info_present[OF e80] e80 e22 s80 m80 m22 s22
  show ?thesis by blast
qed

text \<open>
  Claim C4. For every record emitted for a port, \<open>combined_info\<close> is product and version
  joined by one space when both are non-empty on the service element, the non-empty one of
  the two when only one is, and absent when neither is or when there is no service element.
\<close>

theorem combined_info_value:
  assumes "emitted str_upper root port_status_filter host port r"
  shows "combined_info_of r =
           (case find_elem port ''service'' of
              None \<Rightarrow> None
            | Some service \<Rightarrow>
                (let product = get_or service ''product'' [];
                     version = get_or service ''version'' []
                 in if product \<noteq> [] \<and> version \<noteq> [] then Some (product @ '' '' @ version)
                    else if product \<noteq> [] then Some product
                    else if version \<noteq> [] then Some version
                    else None))"
proof -
  from assms obtain ip where pb: "port_body str_upper port_status_filter (hostname_of host) ip port = Some r"
    using emitted_port_body by blast
  note dsi = port_body_details[OF pb]
  show ?thesis
  proof (cases "find_elem port ''service''")
    case None
    then have "snd (service_info port) = []" by (simp add: service_info_def)
    with dsi None show ?thesis by (simp add: combined_info_of_def)
  next
    case (Some service)
    let ?five = "concat (map (details_entry service) service_attrs)"
    have five: "map_of ?five ''combined_info'' = None"
      using combined_fresh[of service] by (simp add: map_of_eq_None_iff)
    have "combined_info_of r = map_of (snd (service_info port)) ''combined_info''"
      using dsi by (cases "snd (service_info port)") (simp_all add: combined_info_of_def)
    also have "\<dots> =
        (if truthy (get service ''product'') \<or> truthy (get service ''version'')
         then Some (join '' '' (append_if (append_if [] (get service ''product''))
                                  (get service ''version'')))
         else None)"
      unfolding service_details_eq[OF Some] using five by (simp add: map_add_def)
    also have "\<dots> =
        (let product = get_or service ''product'' [];
             version = get_or service ''version'' []
         in if product \<noteq> [] \<and> version \<noteq> [] then Some (product @ '' '' @ version)
            else if product \<noteq> [] then Some product
            else if version \<noteq> [] then Some version
            else None)"
      by (cases "get service ''product''"; cases "get service ''version''")
         (auto simp: get_or_def Let_def)
    finally show ?thesis using Some by simp
  qed
qed

theorem combined_info_value_witness:
  "emitted ascii_upper doc_web1 ''all'' host_web1 port80 record80 \<and>
   combined_info_of record80 = Some ''nginx 1.18'' \<and>
   emitted ascii_upper doc_web1 ''all'' host_web1 port22 record22 \<and>
   combined_info_of record22 = None"
proof -
  have e80: "emitted ascii_upper doc_web1 ''all'' host_web1 port80 record80"
    by (simp add: model_defs example_defs)
  have e22: "emitted ascii_upper doc_web1 ''all'' host_web1 port22 record22"
    by (simp add: model_defs example_defs)
  have "combined_info_of record80 = Some ''nginx 1.18''"
    using combined_info_value[OF e80] by (simp add: model_defs example_defs)
  moreover have "combined_info_of record22 = None"
    using combined_info_value[OF e22] by (simp add: model_defs example_defs)
  ultimately show ?thesis using e80 e22 by simp
qed

section \<open>The script output\<close>

lemmas example3_defs = script_a_def script_b_def port_dup_def host_dup_def doc_dup_def
  record_dup_def last_script_with_id_def

lemma find_app:
  "List.find P (xs @ ys) = (case List.find P xs of None \<Rightarrow> List.find P ys | Some x \<Rightarrow> Some x)"
  by (induction xs) simp_all

lemma script_loop_lookup:
  "map_of (script_loop scripts d) k =
     (if k = [] then map_of d k
      else case last_script_with_id scripts k of
             None \<Rightarrow> map_of d k
           | Some s \<Rightarrow> Some (get_or s ''output'' []))"
proof (induction scripts arbitrary: d)
  case Nil
  show ?case by (simp add: last_script_with_id_def)
next
  case (Cons s scripts)
  show ?case
    by (simp add: Cons.IH last_script_with_id_def find_app map_of_setitem Let_def
          split: option.splits)
qed

lemma script_loop_keys:
  "fst ` set (script_loop scripts d) =
     fst ` set d \<union> {k. k \<noteq> [] \<and> (\<exists>s\<in>set scripts. get_or s ''id'' [] = k)}"
proof (induction scripts arbitrary: d)
  case Nil
  show ?case by simp
next
  case (Cons s scripts)
  show ?case
    by (auto simp: Cons.IH Let_def setitem_def dom_update)
qed

lemma script_loop_nonempty:
  "script_loop scripts [] \<noteq> [] \<longleftrightarrow> (\<exists>s\<in>set scripts. get_or s ''id'' [] \<noteq> [])"
proof -
  have "script_loop scripts [] \<noteq> [] \<longleftrightarrow> fst ` set (script_loop scripts []) \<noteq> {}"
    by simp
  also have "\<dots> \<longleftrightarrow> (\<exists>s\<in>set scripts. get_or s ''id'' [] \<noteq> [])"
    unfolding script_loop_keys by auto
  finally show ?thesis .
qed

lemma port_body_scripts:
  assumes "port_body u f hn ip port = Some r"
  shows "map_of r ''script_output'' =
           (if script_loop (findall port ''script'') [] \<noteq> []
            then Some (Dict (script_loop (findall port ''script'') [])) else None)"
  using assms
  by (auto simp: port_body_def add_scripts_def Let_def map_of_setitem
           split: if_splits prod.splits)

lemma last_script_distinct:
  "distinct (map (\<lambda>s. get_or s ''id'' []) scripts) \<Longrightarrow> s \<in> set scripts \<Longrightarrow>
   last_script_with_id scripts (get_or s ''id'' []) = Some s"
proof (induction scripts)
  case Nil
  then show ?case by simp
next
  case (Cons a scripts)
  show ?case
  proof (cases "s \<in> set scripts")
    case True
    with Cons show ?thesis
      by (simp add: last_script_with_id_def find_app)
  next
    case False
    with Cons.prems have sa: "s = a" by simp
    from Cons.prems(1)
    have "get_or a ''id'' [] \<notin> (\<lambda>s. get_or s ''id'' []) ` set scripts"
      by simp
    then have "\<forall>x\<in>set scripts. get_or x ''id'' [] \<noteq> get_or a ''id'' []"
      by (metis imageI)
    then have "List.find (\<lambda>x. get_or x ''id'' [] = get_or a ''id'' []) (rev scripts) = None"
      by (simp add: find_None_iff)
    with sa show ?thesis by (simp add: last_script_with_id_def find_app)
  qed
qed

text \<open>
  Claim C5, as the code has it. For every record emitted for a port, the key
  \<open>script_output\<close> is present exactly when the port has a script child with a non-empty
  \<open>id\<close>. When present, its value is a dictionary that maps each non-empty id to the
  \<open>output\<close> attribute (the empty string when absent) of the last script child carrying
  that id, and has no other entry; so when no id is repeated, each script with a
  non-empty id has its id mapped to its own output.
\<close>

theorem script_output_present:
  assumes "emitted str_upper root port_status_filter host port r"
  shows "(map_of r ''script_output'' \<noteq> None \<longleftrightarrow>
            (\<exists>script\<in>set (findall port ''script''). get_or script ''id'' [] \<noteq> [])) \<and>
         (\<forall>v. map_of r ''script_output'' = Some v \<longrightarrow>
            (\<exists>script_output. v = Dict script_output \<and>
               (\<forall>k. map_of script_output k =
                      (if k = [] then None
                       else map_option (\<lambda>s. get_or s ''output'' [])
                              (last_script_with_id (findall port ''script'') k))) \<and>
               (distinct (map (\<lambda>s. get_or s ''id'' []) (findall port ''script'')) \<longrightarrow>
                  (\<forall>script\<in>set (findall port ''script'').
                     get_or script ''id'' [] \<noteq> [] \<longrightarrow>
                     map_of script_output (get_or script ''id'' []) =
                       Some (get_or script ''output'' [])))))"
proof -
  from assms obtain ip where pb: "port_body str_upper port_status_filter (hostname_of host) ip port = Some r"
    using emitted_port_body by blast
  let ?scripts = "findall port ''script''"
  let ?so = "script_loop ?scripts []"
  note so = port_body_scripts[OF pb]
  have lookup: "map_of ?so k =
      (if k = [] then None
       else map_option (\<lambda>s. get_or s ''output'' []) (last_script_with_id ?scripts k))" for k
    by (simp add: script_loop_lookup split: option.splits)
  have own: "map_of ?so (get_or s ''id'' []) = Some (get_or s ''output'' [])"
    if "distinct (map (\<lambda>s. get_or s ''id'' []) ?scripts)" "s \<in> set ?scripts"
       "get_or s ''id'' [] \<noteq> []" for s
    using that last_script_distinct[of ?scripts s] by (simp add: lookup)
  have present: "map_of r ''script_output'' \<noteq> None \<longleftrightarrow>
      (\<exists>script\<in>set ?scripts. get_or script ''id'' [] \<noteq> [])"
    using so by (simp add: script_loop_nonempty)
  have shape: "\<exists>script_output. v = Dict script_output \<and>
               (\<forall>k. map_of script_output k =
                      (if k = [] then None
                       else map_option (\<lambda>s. get_or s ''output'' [])
                              (last_script_with_id ?scripts k))) \<and>
               (distinct (map (\<lambda>s. get_or s ''id'' []) ?scripts) \<longrightarrow>
                  (\<forall>script\<in>set ?scripts.
                     get_or script ''id'' [] \<noteq> [] \<longrightarrow>
                     map_of script_output (get_or script ''id'' []) =
                       Some (get_or script ''output'' [])))"
    if "map_of r ''script_output'' = Some v" for v
  proof -
    from that so have "v = Dict ?so" by (simp split: if_splits)
    with lookup own show ?thesis by blast
  qed
  from present shape show ?thesis by blast
qed

theorem script_output_present_witness:
  "emitted ascii_upper doc_dup ''all'' host_dup port_dup record_dup \<and>
   map_of record_dup ''script_output'' = Some (Dict [(''x'', ''b'')]) \<and>
   findall port_dup ''script'' = [script_a, script_b] \<and>
   last_script_with_id (findall port_dup ''script'') ''x'' = Some script_b \<and>
   map_of [(''x'', ''b'')] ''x'' = Some (get_or script_b ''output'' [])"
proof -
  have e: "emitted ascii_upper doc_dup ''all'' host_dup port_dup record_dup"
    by (simp add: model_defs example3_defs)
  have m: "map_of record_dup ''script_output'' = Some (Dict [(''x'', ''b'')])"
    by (simp add: record_dup_def)
  have f: "findall port_dup ''script'' = [script_a, script_b]"
    by (simp add: model_defs example3_defs)
  have l: "last_script_with_id (findall port_dup ''script'') ''x'' = Some script_b"
    by (simp add: model_defs example3_defs)
  have o: "map_of [(''x'', ''b'')] ''x'' = Some (get_or script_b ''output'' [])"
    by (simp add: model_defs example3_defs)
  from script_output_present[OF e] e m f l o
  show ?thesis by blast
qed

text \<open>
  The claim as written asks that each non-empty script id be mapped to the output of the
  script it comes from. On \<open>port_dup\<close> the first script has id \<open>x\<close> and output \<open>a\<close>,
  and the record maps \<open>x\<close> to \<open>b\<close>.
\<close>

theorem script_output_counterexample:
  "emitted ascii_upper doc_dup ''all'' host_dup port_dup record_dup \<and>
   map_of record_dup ''script_output'' = Some (Dict [(''x'', ''b'')]) \<and>
   script_a \<in> set (findall port_dup ''script'') \<and>
   get_or script_a ''id'' [] = ''x'' \<and>
   get_or script_a ''output'' [] = ''a'' \<and>
   map_of [(''x'', ''b'')] (get_or script_a ''id'' []) \<noteq> Some (get_or script_a ''output'' [])"
  by (simp add: model_defs example3_defs)

section \<open>The five fields\<close>

lemmas example4_defs = port_bare_def host_no_ports_def host_bare_def record_bare_def
  doc_twice_def

text \<open>
  Claim C6. Every emitted record has the fields \<open>fqdn\<close>, \<open>ip\<close>, \<open>port\<close>,
  \<open>port_status\<close> and \<open>service\<close>. \<open>fqdn\<close> is the \<open>name\<close> attribute of the first
  \<open>hostname\<close> child of the host's first \<open>hostnames\<close> child. \<open>port\<close> is the protocol
  attribute put in upper case by \<open>str.upper()\<close>, a slash and the \<open>portid\<close> attribute;
  when the protocol is an ASCII string its upper case is the string with a to z replaced
  by A to Z. \<open>port_status\<close> is the \<open>state\<close> attribute of the first \<open>state\<close> child and
  \<open>service\<close> the \<open>name\<close> attribute of the first \<open>service\<close> child. Each of these is the
  empty string when the element or the attribute is absent. \<open>ip\<close> is the address found
  by the address scan.
\<close>

theorem record_fields:
  assumes "emitted str_upper root port_status_filter host port r"
  shows "map_of r ''fqdn'' =
           Some (Str (case find_elem host ''hostnames'' of
                        None \<Rightarrow> []
                      | Some hostnames \<Rightarrow>
                          (case find_elem hostnames ''hostname'' of
                             None \<Rightarrow> []
                           | Some hostname_elem \<Rightarrow> get_or hostname_elem ''name'' []))) \<and>
         map_option Str (address_loop (findall host ''address'')) = map_of r ''ip'' \<and>
         map_of r ''port'' =
           Some (Str (upper str_upper (get_or port ''protocol'' []) @ ''/'' @
                      get_or port ''portid'' [])) \<and>
         (is_ascii (get_or port ''protocol'' []) \<longrightarrow>
            map_of r ''port'' =
              Some (Str (ascii_upper (get_or port ''protocol'' []) @ ''/'' @
                         get_or port ''portid'' []))) \<and>
         map_of r ''port_status'' =
           Some (Str (case find_elem port ''state'' of
                        None \<Rightarrow> []
                      | Some state \<Rightarrow> get_or state ''state'' [])) \<and>
         map_of r ''service'' =
           Some (Str (case find_elem port ''service'' of
                        None \<Rightarrow> []
                      | Some service \<Rightarrow> get_or service ''name'' []))"
proof -
  from assms obtain ip where ip: "address_loop (findall host ''address'') = Some ip"
    and pb: "port_body str_upper port_status_filter (hostname_of host) ip port = Some r"
    unfolding emitted_iff by blast
  have "fst (service_info port) =
          (case find_elem port ''service'' of
             None \<Rightarrow> []
           | Some service \<Rightarrow> get_or service ''name'' [])"
    by (simp add: service_info_def split: option.splits)
  with port_body_fields[OF pb] ip show ?thesis
    by (simp add: hostname_of_def port_state_of_def upper_def)
qed

theorem record_fields_witness:
  "emitted ascii_upper doc_web1 ''all'' host_web1 port80 record80 \<and>
   map_of record80 ''fqdn'' = Some (Str ''web1'') \<and>
   map_of record80 ''ip'' = Some (Str ''10.0.0.5'') \<and>
   is_ascii (get_or port80 ''protocol'' []) \<and>
   map_of record80 ''port'' = Some (Str ''TCP/80'') \<and>
   map_of record80 ''port_status'' = Some (Str ''open'') \<and>
   map_of record80 ''service'' = Some (Str ''http'')"
proof -
  have e: "emitted ascii_upper doc_web1 ''all'' host_web1 port80 record80"
    by (simp add: model_defs example_defs)
  from record_fields[OF e] e show ?thesis
    by (simp add: model_defs example_defs)
qed

section \<open>The order of the output\<close>

lemma map_filter_concat:
  "List.map_filter g xs = concat (map (\<lambda>x. case g x of None \<Rightarrow> [] | Some y \<Rightarrow> [y]) xs)"
  by (induction xs) (simp_all add: List.map_filter_simps split: option.splits)

lemma host_body_spec: "host_body u f host [] = spec_host_records u f host"
  by (simp add: host_body_def spec_host_records_def port_loop_append map_filter_concat
        Let_def split: option.splits)

lemma transform_spec: "transform u root f = spec_transform u root f"
  by (simp add: transform_def spec_transform_def host_loop_append host_body_spec)

lemma findall_desc_append:
  "findall_desc (Element t a (cs @ cs')) x =
     findall_desc (Element t a cs) x @ findall_desc (Element t a cs') x"
  by (simp add: findall_desc_def)

text \<open>
  Claim C7. The output is the concatenation, over the host elements in document order,
  of the records of each host, which are the records of its port children in document
  order. Nothing is sorted, dropped as a duplicate or merged: the output for a root whose
  children are \<open>cs\<close> followed by \<open>cs'\<close> is the output for \<open>cs\<close> followed by the output
  for \<open>cs'\<close>, so a host that occurs twice contributes its records twice.
\<close>

theorem output_order:
  "transform str_upper root port_status_filter = spec_transform str_upper root port_status_filter \<and>
   transform str_upper (Element t a (cs @ cs')) port_status_filter =
     transform str_upper (Element t a cs) port_status_filter @
     transform str_upper (Element t a cs') port_status_filter \<and>
   port_loop str_upper port_status_filter hostname ip_address (ports @ ports') results =
     port_loop str_upper port_status_filter hostname ip_address ports'
       (port_loop str_upper port_status_filter hostname ip_address ports results)"
proof (intro conjI)
  show "transform str_upper root port_status_filter = spec_transform str_upper root port_status_filter"
    by (rule transform_spec)
  show "transform str_upper (Element t a (cs @ cs')) port_status_filter =
     transform str_upper (Element t a cs) port_status_filter @
     transform str_upper (Element t a cs') port_status_filter"
    by (simp add: transform_def findall_desc_append host_loop_append)
  show "port_loop str_upper port_status_filter hostname ip_address (ports @ ports') results =
     port_loop str_upper port_status_filter hostname ip_address ports'
       (port_loop str_upper port_status_filter hostname ip_address ports results)"
    by (induction ports arbitrary: results) simp_all
qed

theorem output_order_witness:
  "transform ascii_upper doc_twice ''all'' = [record80, record22, record80, record22] \<and>
   spec_transform ascii_upper doc_twice ''all'' = [record80, record22, record80, record22] \<and>
   transform ascii_upper doc_web1 ''all'' = [record80, record22]"
proof -
  have w: "transform ascii_upper (Element ''nmaprun'' [] [host_web1]) ''all'' = [record80, record22]"
    by (simp add: model_defs example_defs)
  note oo = output_order[where str_upper = ascii_upper and root = doc_twice and port_status_filter = "''all''"
      and t = "''nmaprun''" and a = "[]" and cs = "[host_web1]" and cs' = "[host_web1]"
      and hostname = "[]" and ip_address = "[]" and ports = "[]" and ports' = "[]"
      and results = "[]"]
  from oo have s: "transform ascii_upper doc_twice ''all'' = spec_transform ascii_upper doc_twice ''all''"
    by (rule conjunct1)
  from oo have "transform ascii_upper (Element ''nmaprun'' [] ([host_web1] @ [host_web1])) ''all'' =
      transform ascii_upper (Element ''nmaprun'' [] [host_web1]) ''all'' @
      transform ascii_upper (Element ''nmaprun'' [] [host_web1]) ''all''"
    by blast
  with w have t: "transform ascii_upper doc_twice ''all'' = [record80, record22, record80, record22]"
    by (simp add: doc_twice_def)
  from s t have "spec_transform ascii_upper doc_twice ''all'' = [record80, record22, record80, record22]"
    by (rule subst)
  with t w show ?thesis by (simp add: doc_web1_def)
qed

section \<open>Failure and defaults\<close>

lemma port_body_all: "\<exists>r. port_body u ''all'' hn ip port = Some r"
  by (simp add: port_body_def Let_def split: prod.splits)

lemma map_filter_all_length:
  "\<forall>x\<in>set xs. g x \<noteq> None \<Longrightarrow> length (List.map_filter g xs) = length xs"
  by (induction xs) (auto simp: List.map_filter_simps split: option.splits)

text \<open>
  Claim C8. When the parser fails, \<open>parse_nmap_xml\<close> ends with \<open>SystemExit 1\<close> and gives
  no result list; when it yields a root element, \<open>parse_nmap_xml\<close> returns the list of
  records, whatever is missing in the document. A port without any attribute or child
  gives a record whose strings are empty and which has neither optional key. A host
  without a \<open>ports\<close> child leaves the results as they are. A host with a usable address
  and a \<open>ports\<close> child is not skipped: its port children all go through the port loop,
  and with the filter \<open>all\<close> each of them gives one record.
\<close>

theorem failure_and_defaults:
  "(ET_parse xml_file = None \<longrightarrow>
      parse_nmap_xml str_upper ET_parse xml_file port_status_filter = Inl (SystemExit 1)) \<and>
   (ET_parse xml_file = Some root \<longrightarrow>
      parse_nmap_xml str_upper ET_parse xml_file port_status_filter =
        Inr (transform str_upper root port_status_filter)) \<and>
   port_body str_upper ''all'' hostname ip_address (Element ''port'' [] []) =
     Some [(''fqdn'', Str hostname), (''ip'', Str ip_address), (''port'', Str ''/''),
           (''port_status'', Str []), (''service'', Str [])] \<and>
   (find_elem host ''ports'' = None \<longrightarrow>
      host_body str_upper port_status_filter host results = results) \<and>
   (address_loop (findall host ''address'') = Some ip \<and> ip \<noteq> [] \<and>
    find_elem host ''ports'' = Some ports \<longrightarrow>
      host_body str_upper port_status_filter host results =
        port_loop str_upper port_status_filter (hostname_of host) ip (findall ports ''port'') results \<and>
      length (host_body str_upper ''all'' host results) =
        length results + length (findall ports ''port''))"
proof (intro conjI impI)
  assume "ET_parse xml_file = None"
  then show "parse_nmap_xml str_upper ET_parse xml_file port_status_filter = Inl (SystemExit 1)"
    by (simp add: parse_nmap_xml_def)
next
  assume "ET_parse xml_file = Some root"
  then show "parse_nmap_xml str_upper ET_parse xml_file port_status_filter =
        Inr (transform str_upper root port_status_filter)"
    by (simp add: parse_nmap_xml_def)
next
  show "port_body str_upper ''all'' hostname ip_address (Element ''port'' [] []) =
     Some [(''fqdn'', Str hostname), (''ip'', Str ip_address), (''port'', Str ''/''),
           (''port_status'', Str []), (''service'', Str [])]"
    by (simp add: model_defs)
next
  assume "find_elem host ''ports'' = None"
  then show "host_body str_upper port_status_filter host results = results"
    by (simp add: host_body_def split: option.splits)
next
  assume h: "address_loop (findall host ''address'') = Some ip \<and> ip \<noteq> [] \<and>
    find_elem host ''ports'' = Some ports"
  then show "host_body str_upper port_status_filter host results =
        port_loop str_upper port_status_filter (hostname_of host) ip (findall ports ''port'') results"
    by (simp add: host_body_def)
  from h have "host_body str_upper ''all'' host results =
      results @ List.map_filter (port_body str_upper ''all'' (hostname_of host) ip) (findall ports ''port'')"
    by (simp add: host_body_def port_loop_append)
  moreover have "length (List.map_filter (port_body str_upper ''all'' (hostname_of host) ip)
                   (findall ports ''port'')) = length (findall ports ''port'')"
    using port_body_all by (intro map_filter_all_length) (metis option.distinct(1))
  ultimately show "length (host_body str_upper ''all'' host results) =
        length results + length (findall ports ''port'')"
    by simp
qed

theorem failure_and_defaults_witness:
  "parse_nmap_xml ascii_upper (\<lambda>_. None) ''scan.xml'' ''all'' = Inl (SystemExit 1) \<and>
   parse_nmap_xml ascii_upper (\<lambda>_. Some (Element ''nmaprun'' [] [host_bare])) ''scan.xml'' ''all'' =
     Inr [record_bare] \<and>
   find_elem host_no_ports ''ports'' = None \<and>
   host_body ascii_upper ''all'' host_no_ports [record_bare] = [record_bare] \<and>
   address_loop (findall host_web1 ''address'') = Some ''10.0.0.5'' \<and>
   find_elem host_web1 ''ports'' = Some (Element ''ports'' [] [port80, port22]) \<and>
   length (host_body ascii_upper ''all'' host_web1 []) = 2"
proof -
  have t: "transform ascii_upper (Element ''nmaprun'' [] [host_bare]) ''all'' = [record_bare]"
    by (simp add: model_defs example4_defs)
  have p: "find_elem host_no_ports ''ports'' = None"
    by (simp add: model_defs example4_defs)
  have a: "address_loop (findall host_web1 ''address'') = Some ''10.0.0.5'' \<and>
      ''10.0.0.5'' \<noteq> [] \<and>
      find_elem host_web1 ''ports'' = Some (Element ''ports'' [] [port80, port22])"
    by (simp add: model_defs example_defs)
  have f: "findall (Element ''ports'' [] [port80, port22]) ''port'' = [port80, port22]"
    by (simp add: model_defs example_defs)
  note none = failure_and_defaults[where str_upper = ascii_upper and ET_parse = "\<lambda>_. None" and xml_file = "''scan.xml''"
      and port_status_filter = "''all''" and root = "Element ''nmaprun'' [] [host_bare]"
      and hostname = "[]" and ip_address = "[]" and host = host_no_ports
      and results = "[record_bare]" and ip = "[]" and ports = "Element ''ports'' [] []"]
  note some = failure_and_defaults[where str_upper = ascii_upper and ET_parse = "\<lambda>_. Some (Element ''nmaprun'' [] [host_bare])"
      and xml_file = "''scan.xml''"
      and port_status_filter = "''all''" and root = "Element ''nmaprun'' [] [host_bare]"
      and hostname = "[]" and ip_address = "[]" and host = host_web1
      and results = "[]" and ip = "''10.0.0.5''"
      and ports = "Element ''ports'' [] [port80, port22]"]
  from none have 1: "parse_nmap_xml ascii_upper (\<lambda>_. None) ''scan.xml'' ''all'' = Inl (SystemExit 1)"
    by simp
  from some t
  have 2: "parse_nmap_xml ascii_upper (\<lambda>_. Some (Element ''nmaprun'' [] [host_bare])) ''scan.xml'' ''all'' =
     Inr [record_bare]"
    by simp
  from none p have 3: "host_body ascii_upper ''all'' host_no_ports [record_bare] = [record_bare]"
    by blast
  from some a have "length (host_body ascii_upper ''all'' host_web1 []) =
      length ([]::flat_record list) +
      length (findall (Element ''ports'' [] [port80, port22]) ''port'')"
    by blast
  with f have 4: "length (host_body ascii_upper ''all'' host_web1 []) = 2"
    by simp
  from 1 2 3 4 p a show ?thesis by simp
qed

end
